theory Spec2Isabelle
  imports Complex_Main
begin

section \<open>Numbers as the recognizer computes them\<close>

text \<open>
  A descriptor is a Python list of numbers (\<open>extract_face_features\<close> returns the
  flattened grey levels, the store holds their means). Arithmetic is exact: a float is a
  real number, or the one special value the code can produce, numpy's \<open>nan\<close>. An
  ordering comparison that involves \<open>nan\<close> is false, as in Python.
\<close>

type_synonym feature_list = "real list"

datatype fl = Fin real | NaN

fun fl_gt :: "fl \<Rightarrow> fl \<Rightarrow> bool" where
  "fl_gt (Fin x) (Fin y) = (y < x)"
| "fl_gt _ _ = False"

fun fl_lt :: "fl \<Rightarrow> fl \<Rightarrow> bool" where
  "fl_lt (Fin x) (Fin y) = (x < y)"
| "fl_lt _ _ = False"

fun fl_add :: "fl \<Rightarrow> fl \<Rightarrow> fl" where
  "fl_add (Fin x) (Fin y) = Fin (x + y)"
| "fl_add _ _ = NaN"

fun fl_mul :: "fl \<Rightarrow> fl \<Rightarrow> fl" where
  "fl_mul (Fin x) (Fin y) = Fin (x * y)"
| "fl_mul _ _ = NaN"

text \<open>Python's builtin \<open>max(a, b)\<close> keeps \<open>a\<close> unless \<open>b > a\<close>.\<close>

definition py_max :: "fl \<Rightarrow> fl \<Rightarrow> fl" where
  "py_max a b = (if fl_gt b a then b else a)"

text \<open>
  \<open>round(x, 2)\<close> on a numpy float: scale by 100, round half to even, scale back.
\<close>

definition rint :: "real \<Rightarrow> int" where
  "rint x =
     (let f = \<lfloor>x\<rfloor>; d = x - of_int f
      in if d < 1 / 2 then f
         else if 1 / 2 < d then f + 1
         else if even f then f else f + 1)"

fun round2 :: "fl \<Rightarrow> fl" where
  "round2 (Fin x) = Fin (of_int (rint (x * 100)) / 100)"
| "round2 NaN = NaN"

datatype py_error = ValueError

section \<open>The similarity scorer: \<open>compare_faces\<close>\<close>

definition linalg_norm :: "feature_list \<Rightarrow> real" where
  "linalg_norm xs = sqrt (\<Sum>x\<leftarrow>xs. x * x)"

text \<open>
  \<open>features / np.linalg.norm(features)\<close>. The norm is zero only when every entry is
  zero (lemma \<open>linalg_norm_eq_0_iff\<close> below), and numpy's \<open>0 / 0.0\<close> is \<open>nan\<close>,
  with a warning and no exception.
\<close>

definition l2_normalize :: "feature_list \<Rightarrow> fl list" where
  "l2_normalize xs =
     (let n = linalg_norm xs
      in if n = 0 then map (\<lambda>x. NaN) xs else map (\<lambda>x. Fin (x / n)) xs)"

text \<open>
  \<open>np.dot\<close> of two vectors: arrays of different lengths raise \<open>ValueError\<close>; two
  empty arrays give \<open>0.0\<close>.
\<close>

definition np_dot :: "fl list \<Rightarrow> fl list \<Rightarrow> py_error + fl" where
  "np_dot xs ys =
     (if length xs \<noteq> length ys then Inl ValueError
      else Inr (foldr fl_add (map2 fl_mul xs ys) (Fin 0)))"

definition compare_faces ::
  "feature_list \<Rightarrow> feature_list \<Rightarrow> real \<Rightarrow> py_error + (bool \<times> fl)" where
  "compare_faces features1 features2 threshold =
     (case np_dot (l2_normalize features1) (l2_normalize features2) of
        Inl e \<Rightarrow> Inl e
      | Inr similarity \<Rightarrow> Inr (fl_gt similarity (Fin threshold), similarity))"

text \<open>
  The cosine similarity that \<open>compare_faces\<close> computes for two descriptors of one
  length: the dot product of the normalised vectors.
\<close>

definition similarity :: "feature_list \<Rightarrow> feature_list \<Rightarrow> fl" where
  "similarity a b = foldr fl_add (map2 fl_mul (l2_normalize a) (l2_normalize b)) (Fin 0)"

section \<open>The face store\<close>

text \<open>
  \<open>known_faces\<close> is a Python dict from the name to the face data, a dict itself with
  the keys \<open>features\<close>, \<open>all_features\<close>, \<open>registered_at\<close> and \<open>image_count\<close>.
  A dict iterates in insertion order, so the store is an association list. The code
  tests \<open>'all_features' in face_data\<close> before it reads that key (a file written
  without it is accepted), so the field is optional.
\<close>

record face_data =
  features :: feature_list
  all_features :: "feature_list list option"
  registered_at :: string
  image_count :: nat

type_synonym known_faces = "(string \<times> face_data) list"

text \<open>\<open>name in known_faces\<close>, \<open>known_faces[name] = v\<close> and \<open>del known_faces[name]\<close>.\<close>

definition dict_contains :: "known_faces \<Rightarrow> string \<Rightarrow> bool" where
  "dict_contains kf name = (name \<in> set (map fst kf))"

fun dict_set :: "known_faces \<Rightarrow> string \<Rightarrow> face_data \<Rightarrow> known_faces" where
  "dict_set [] name v = [(name, v)]"
| "dict_set ((k, w) # kf) name v =
     (if k = name then (k, v) # kf else (k, w) # dict_set kf name v)"


section \<open>The duplicate guard: \<open>check_face_similarity\<close>\<close>

text \<open>The inner loop over \<open>face_data['all_features']\<close>: true at the first similar sample.\<close>

fun any_individual_similar ::
  "feature_list \<Rightarrow> feature_list list \<Rightarrow> real \<Rightarrow> py_error + bool" where
  "any_individual_similar feats [] similarity_threshold = Inr False"
| "any_individual_similar feats (individual_features # rest) similarity_threshold =
     (case compare_faces feats individual_features similarity_threshold of
        Inl e \<Rightarrow> Inl e
      | Inr (is_similar, sim) \<Rightarrow>
          if is_similar then Inr True
          else any_individual_similar feats rest similarity_threshold)"

fun check_face_similarity ::
  "known_faces \<Rightarrow> feature_list \<Rightarrow> real \<Rightarrow> py_error + string option" where
  "check_face_similarity [] feats similarity_threshold = Inr None"
| "check_face_similarity ((registered_name, face_data) # rest) feats similarity_threshold =
     (case compare_faces feats (face_data.features face_data) similarity_threshold of
        Inl e \<Rightarrow> Inl e
      | Inr (is_similar, sim) \<Rightarrow>
          if is_similar then Inr (Some registered_name)
          else (case all_features face_data of
                  None \<Rightarrow> check_face_similarity rest feats similarity_threshold
                | Some individual \<Rightarrow>
                    (case any_individual_similar feats individual similarity_threshold of
                       Inl e \<Rightarrow> Inl e
                     | Inr found \<Rightarrow>
                         if found then Inr (Some registered_name)
                         else check_face_similarity rest feats similarity_threshold)))"

text \<open>
  The words of the guard's contract: the sample descriptors of a record, the descriptors
  of a record having the query's length, and a record being similar to the query at a
  threshold (its primary descriptor or one of its samples has similarity strictly above
  the threshold).
\<close>

definition samples :: "face_data \<Rightarrow> feature_list list" where
  "samples fd = (case all_features fd of None \<Rightarrow> [] | Some individual \<Rightarrow> individual)"

definition same_length :: "feature_list \<Rightarrow> face_data \<Rightarrow> bool" where
  "same_length q fd =
     (length (face_data.features fd) = length q \<and> (\<forall>g\<in>set (samples fd). length g = length q))"

definition record_similar :: "feature_list \<Rightarrow> real \<Rightarrow> face_data \<Rightarrow> bool" where
  "record_similar q t fd =
     (fl_gt (similarity q (face_data.features fd)) (Fin t)
      \<or> (\<exists>g\<in>set (samples fd). fl_gt (similarity q g) (Fin t)))"

section \<open>The collaborators outside the recognizer\<close>

text \<open>
  The image, the cascade detector and the pixel operations of \<open>extract_face_features\<close>
  are OpenCV's. An image is a value of a type \<open>'img\<close>; the detector maps it to the rows
  \<open>[x, y, w, h]\<close> it finds, the extractor maps an image and one row to a descriptor.
  Both are parameters of the operations below.
\<close>

type_synonym 'img detector = "'img \<Rightarrow> int list list"
type_synonym 'img extractor = "'img \<Rightarrow> int list \<Rightarrow> feature_list"

text \<open>
  The recognizer object: the dict in memory and the file \<open>face_data.json\<close>, which is
  absent, unreadable as JSON, or holds the dict written by the last save.
\<close>

datatype file_content = Absent | Corrupt | Stored known_faces

record recognizer =
  known_faces :: known_faces
  face_data_file :: file_content


definition save_known_faces :: "recognizer \<Rightarrow> recognizer" where
  "save_known_faces st = st\<lparr>face_data_file := Stored (known_faces st)\<rparr>"


section \<open>Recognition: \<open>recognize_face\<close>\<close>

text \<open>The loop over \<open>face_data['all_features']\<close> that raises \<open>best_individual_similarity\<close>.\<close>

fun best_individual :: "feature_list \<Rightarrow> feature_list list \<Rightarrow> fl \<Rightarrow> py_error + fl" where
  "best_individual feats [] best_individual_similarity = Inr best_individual_similarity"
| "best_individual feats (individual_features # rest) best_individual_similarity =
     (case compare_faces feats individual_features (6 / 10) of
        Inl e \<Rightarrow> Inl e
      | Inr (m, individual_similarity) \<Rightarrow>
          best_individual feats rest (py_max best_individual_similarity individual_similarity))"

text \<open>
  One pass of the loop over the store, up to the update of the running best: the verdict
  and the similarity of one record.
\<close>

definition match_known :: "feature_list \<Rightarrow> face_data \<Rightarrow> py_error + (bool \<times> fl)" where
  "match_known feats face_data =
     (case compare_faces feats (face_data.features face_data) (6 / 10) of
        Inl e \<Rightarrow> Inl e
      | Inr (is_match, sim) \<Rightarrow>
          (case all_features face_data of
             None \<Rightarrow> Inr (is_match, sim)
           | Some individual \<Rightarrow>
               if fl_lt sim (Fin (8 / 10)) then
                 (case best_individual feats individual sim of
                    Inl e \<Rightarrow> Inl e
                  | Inr best_individual_similarity \<Rightarrow>
                      Inr (fl_gt best_individual_similarity (Fin (75 / 100)),
                           best_individual_similarity))
               else Inr (is_match, sim)))"

fun scan_known_faces ::
  "feature_list \<Rightarrow> known_faces \<Rightarrow> string option \<times> fl \<Rightarrow> py_error + (string option \<times> fl)" where
  "scan_known_faces feats [] (best_match, best_similarity) = Inr (best_match, best_similarity)"
| "scan_known_faces feats ((name, face_data) # rest) (best_match, best_similarity) =
     (case match_known feats face_data of
        Inl e \<Rightarrow> Inl e
      | Inr (is_match, sim) \<Rightarrow>
          if fl_gt sim best_similarity then
            scan_known_faces feats rest (if is_match then Some name else best_match, sim)
          else scan_known_faces feats rest (best_match, best_similarity))"

text \<open>\<open>best_match or 'Unknown'\<close>: \<open>None\<close> and the empty string are both false.\<close>

definition or_unknown :: "string option \<Rightarrow> string" where
  "or_unknown best_match =
     (case best_match of None \<Rightarrow> ''Unknown'' | Some n \<Rightarrow> if n = [] then ''Unknown'' else n)"

record face_result =
  res_name :: string
  res_confidence :: fl
  res_coordinates :: "int list"

definition recognize_one ::
  "known_faces \<Rightarrow> feature_list \<Rightarrow> int list \<Rightarrow> py_error + face_result" where
  "recognize_one kf feats face_coords =
     (case scan_known_faces feats kf (None, Fin 0) of
        Inl e \<Rightarrow> Inl e
      | Inr (best_match, best_similarity) \<Rightarrow>
          Inr \<lparr>res_name = or_unknown best_match,
               res_confidence = round2 (fl_mul best_similarity (Fin 100)),
               res_coordinates = face_coords\<rparr>)"

fun recognize_each ::
  "known_faces \<Rightarrow> 'img extractor \<Rightarrow> 'img \<Rightarrow> int list list \<Rightarrow> py_error + face_result list" where
  "recognize_each kf ext img [] = Inr []"
| "recognize_each kf ext img (face_coords # rest) =
     (case recognize_one kf (ext img face_coords) face_coords of
        Inl e \<Rightarrow> Inl e
      | Inr r \<Rightarrow>
          (case recognize_each kf ext img rest of
             Inl e \<Rightarrow> Inl e
           | Inr rs \<Rightarrow> Inr (r # rs)))"

definition recognize_face ::
  "recognizer \<Rightarrow> 'img detector \<Rightarrow> 'img extractor \<Rightarrow> 'img \<Rightarrow> py_error + (face_result list \<times> string)" where
  "recognize_face st det ext img =
     (let faces = det img
      in if length faces = 0 then Inr ([], ''No face detected'')
         else (case recognize_each (known_faces st) ext img faces of
                 Inl e \<Rightarrow> Inl e
               | Inr results \<Rightarrow> Inr (results, ''Recognition completed'')))"

section \<open>Enrollment: \<open>register_face\<close>\<close>

text \<open>The decimal text of a number, as an f-string prints \<open>{i+1}\<close>.\<close>

fun show_nat :: "nat \<Rightarrow> string" where
  "show_nat n =
     (if n < 10 then [''0123456789'' ! n]
      else show_nat (n div 10) @ [''0123456789'' ! (n mod 10)])"

declare show_nat.simps [simp del]

definition msg_name_exists :: "string \<Rightarrow> string" where
  "msg_name_exists name =
     ''Person with name '' @ [CHR 0x27] @ name @ [CHR 0x27]
       @ '' is already registered. Please use a different name or delete the existing registration first.''"

definition msg_no_face :: "nat \<Rightarrow> string" where
  "msg_no_face k = ''No face detected in image '' @ show_nat k"

definition msg_multiple_faces :: "nat \<Rightarrow> string" where
  "msg_multiple_faces k =
     ''Multiple faces detected in image '' @ show_nat k @ ''. Please ensure only one face per image''"

definition msg_face_exists :: "string \<Rightarrow> string" where
  "msg_face_exists duplicate_name =
     ''This face appears to be already registered under the name '' @ [CHR 0x27] @ duplicate_name
       @ [CHR 0x27] @ ''. Each person can only be registered once.''"

definition msg_registered :: "nat \<Rightarrow> string" where
  "msg_registered k = ''Face registered successfully with '' @ show_nat k @ '' high-quality photos!''"

text \<open>
  The loop over \<open>enumerate(images)\<close>. It stops with a message at the first image that
  fails a check (\<open>Inr (Inl message)\<close>), or returns the collected \<open>all_features\<close>.
  \<open>if duplicate_name:\<close> is false for \<open>None\<close> and for the empty string.
\<close>

fun collect_features ::
  "'img detector \<Rightarrow> 'img extractor \<Rightarrow> known_faces \<Rightarrow> nat \<Rightarrow> 'img list \<Rightarrow> feature_list list
     \<Rightarrow> py_error + (string + feature_list list)" where
  "collect_features det ext kf i [] all_feats = Inr (Inr all_feats)"
| "collect_features det ext kf i (img # rest) all_feats =
     (case det img of
        [] \<Rightarrow> Inr (Inl (msg_no_face (i + 1)))
      | [face_coords] \<Rightarrow>
          (let feats = ext img face_coords
           in case check_face_similarity kf feats (85 / 100) of
                Inl e \<Rightarrow> Inl e
              | Inr duplicate_name \<Rightarrow>
                  (case duplicate_name of
                     None \<Rightarrow> collect_features det ext kf (i + 1) rest (all_feats @ [feats])
                   | Some d \<Rightarrow>
                       if d \<noteq> [] then Inr (Inl (msg_face_exists d))
                       else collect_features det ext kf (i + 1) rest (all_feats @ [feats])))
      | _ \<Rightarrow> Inr (Inl (msg_multiple_faces (i + 1))))"

text \<open>
  \<open>np.mean(all_features, axis=0)\<close> of a non-empty list of rows: the mean of each column;
  rows of different lengths do not make an array and numpy raises.
\<close>

fun np_mean_axis0 :: "feature_list list \<Rightarrow> py_error + feature_list" where
  "np_mean_axis0 (r # rs) =
     (if \<exists>r'\<in>set rs. length r' \<noteq> length r then Inl ValueError
      else Inr (map (\<lambda>j. (\<Sum>row\<leftarrow>r # rs. row ! j) / real (length (r # rs))) [0..<length r]))"

definition register_face ::
  "recognizer \<Rightarrow> 'img detector \<Rightarrow> 'img extractor \<Rightarrow> string \<Rightarrow> 'img list \<Rightarrow> string
     \<Rightarrow> (py_error + bool \<times> string) \<times> recognizer" where
  "register_face st det ext now images name =
     (if length images \<noteq> 3 then (Inr (False, ''Exactly 3 images are required''), st)
      else if dict_contains (known_faces st) name then (Inr (False, msg_name_exists name), st)
      else (case collect_features det ext (known_faces st) 0 images [] of
              Inl e \<Rightarrow> (Inl e, st)
            | Inr (Inl message) \<Rightarrow> (Inr (False, message), st)
            | Inr (Inr all_feats) \<Rightarrow>
                (case np_mean_axis0 all_feats of
                   Inl e \<Rightarrow> (Inl e, st)
                 | Inr avg_features \<Rightarrow>
                     (Inr (True, msg_registered (length images)),
                      save_known_faces
                        (st\<lparr>known_faces :=
                             dict_set (known_faces st) name
                               \<lparr>features = avg_features,
                                all_features = Some all_feats,
                                registered_at = now,
                                image_count = length images\<rparr>\<rparr>)))))"

section \<open>The routes \<open>/register_multiple\<close> and \<open>/delete_face\<close>\<close>

text \<open>
  \<open>str.strip()\<close> removes leading and trailing white space. A \<open>char\<close> is a code point
  below 256; these are the ones Python counts as white space.
\<close>

definition is_space :: "char \<Rightarrow> bool" where
  "is_space c =
     (c \<in> set [CHR 0x09, CHR 0x0A, CHR 0x0B, CHR 0x0C, CHR 0x0D, CHR 0x1C, CHR 0x1D, CHR 0x1E,
               CHR 0x1F, CHR 0x20, CHR 0x85, CHR 0xA0])"

definition strip :: "string \<Rightarrow> string" where
  "strip s = rev (dropWhile is_space (rev (dropWhile is_space s)))"

text \<open>
  Decoding one entry of \<open>images\<close>: the split, the base64 step or OpenCV raises (with
  the exception's text), \<open>cv2.imdecode\<close> returns \<open>None\<close>, or there is an image.
\<close>

datatype 'img decoded = Raises string | NoImage | Image 'img

fun process_images ::
  "(string \<Rightarrow> 'img decoded) \<Rightarrow> 'img detector \<Rightarrow> nat \<Rightarrow> string list \<Rightarrow> 'img list
     \<Rightarrow> string + 'img list" where
  "process_images decode det i [] processed_images = Inr processed_images"
| "process_images decode det i (image_data # rest) processed_images =
     (case decode image_data of
        Raises e \<Rightarrow> Inl (''Error processing photo '' @ show_nat (i + 1) @ '': '' @ e)
      | NoImage \<Rightarrow> Inl (''Invalid image format in photo '' @ show_nat (i + 1))
      | Image img \<Rightarrow>
          if length (det img) \<noteq> 1
          then Inl (''Photo '' @ show_nat (i + 1) @ '' must contain exactly one face'')
          else process_images decode det (i + 1) rest (processed_images @ [img]))"

text \<open>
  The route reads \<open>name\<close> (default \<open>''\<close>) and \<open>images\<close> (default \<open>[]\<close>) from the
  request and answers with \<open>success\<close> and \<open>message\<close>. An exception of
  \<open>register_face\<close> is caught and answered with its text (\<open>str_of\<close>).
\<close>

definition register_multiple ::
  "recognizer \<Rightarrow> (string \<Rightarrow> 'img decoded) \<Rightarrow> 'img detector \<Rightarrow> 'img extractor \<Rightarrow> string
     \<Rightarrow> (py_error \<Rightarrow> string) \<Rightarrow> string \<Rightarrow> string list \<Rightarrow> (bool \<times> string) \<times> recognizer" where
  "register_multiple st decode det ext now str_of request_name images_data =
     (let name = strip request_name
      in if name = [] then ((False, ''Name is required''), st)
         else if length images_data \<noteq> 3 then ((False, ''Exactly 3 images are required''), st)
         else (case process_images decode det 0 images_data [] of
                 Inl message \<Rightarrow> ((False, message), st)
               | Inr processed_images \<Rightarrow>
                   (case register_face st det ext now processed_images name of
                      (Inl e, st') \<Rightarrow> ((False, ''Error: '' @ str_of e), st')
                    | (Inr (success, message), st') \<Rightarrow> ((success, message), st'))))"


section \<open>Example data\<close>

text \<open>
  For concrete runs an image is given by the descriptors of the faces in it: the example
  detector returns one row per face, the example extractor the descriptor of that face.
\<close>

definition example_detector :: "feature_list list detector" where
  "example_detector img = map (\<lambda>i. [int i, 0, 10, 10]) [0..<length img]"

definition example_extractor :: "feature_list list extractor" where
  "example_extractor img face_coords =
     (case face_coords of [] \<Rightarrow> [] | x # r \<Rightarrow> if nat x < length img then img ! nat x else [])"

definition enrolled :: "feature_list \<Rightarrow> feature_list list \<Rightarrow> face_data" where
  "enrolled primary individual =
     \<lparr>features = primary, all_features = Some individual,
      registered_at = ''2024-01-01T00:00:00'', image_count = 3\<rparr>"

definition legacy :: "feature_list \<Rightarrow> face_data" where
  "legacy primary =
     \<lparr>features = primary, all_features = None,
      registered_at = ''2023-01-01T00:00:00'', image_count = 1\<rparr>"

definition ann :: face_data where
  "ann = enrolled [3, 0, 4] [[3, 0, 4], [3, 0, 4], [3, 0, 4]]"

definition eve :: face_data where
  "eve = enrolled [12, 0, 5] [[12, 0, 5], [12, 0, 5], [12, 0, 5]]"

definition example_recognizer :: recognizer where
  "example_recognizer =
     \<lparr>known_faces = [(''ann'', ann), (''eve'', eve)],
      face_data_file = Stored [(''ann'', ann), (''eve'', eve)]\<rparr>"

definition fay :: face_data where
  "fay = enrolled [4 / 3, 4 / 3, 2 / 3] [[0, 0, 2], [1, 0, 0], [3, 4, 0]]"

definition dan :: face_data where
  "dan = enrolled [32 / 3, 26 / 3, 8 / 3] [[0, 0, 2], [3, 0, 4], [29, 26, 2]]"

definition kim :: face_data where
  "kim = enrolled [21, 20, 0] [[21, 20, 0], [21, 20, 0], [21, 20, 0]]"

definition old :: face_data where
  "old = legacy [20, 21, 0]"

text \<open>
  An image passes the checks of the enrollment loop: the detector finds exactly one face
  and the guard, at 0.85 against the store, reports no duplicate (\<open>None\<close>, or the empty
  name, which \<open>if duplicate_name:\<close> takes for no duplicate).
\<close>

definition passes :: "'img detector \<Rightarrow> 'img extractor \<Rightarrow> known_faces \<Rightarrow> 'img \<Rightarrow> bool" where
  "passes det ext kf img =
     (case det img of
        [face_coords] \<Rightarrow>
          (case check_face_similarity kf (ext img face_coords) (85 / 100) of
             Inl e \<Rightarrow> False
           | Inr None \<Rightarrow> True
           | Inr (Some d) \<Rightarrow> d = [])
      | _ \<Rightarrow> False)"

section \<open>The words of the recognition contract\<close>

text \<open>
  The similarities of a query with a list of descriptors that are numbers (\<open>nan\<close> is
  never above or below anything and drops out of every maximum the code takes).
\<close>

definition finite_similarities :: "feature_list \<Rightarrow> feature_list list \<Rightarrow> real list" where
  "finite_similarities q gs =
     concat (map (\<lambda>g. case similarity q g of Fin x \<Rightarrow> [x] | NaN \<Rightarrow> []) gs)"

text \<open>What the comparison with one record yielded: \<open>isMatch\<close> and the similarity.\<close>

definition outcome :: "feature_list \<Rightarrow> face_data \<Rightarrow> bool \<times> fl" where
  "outcome q fd = (case match_known q fd of Inr r \<Rightarrow> r | Inl e \<Rightarrow> (False, NaN))"

text \<open>
  The pairs (name, similarity) of the records whose comparison yielded a match, and the
  similarities observed across all records, both in the store's order.
\<close>

definition matched_pairs :: "feature_list \<Rightarrow> known_faces \<Rightarrow> (string \<times> real) list" where
  "matched_pairs q kf =
     concat (map (\<lambda>(n, fd). case outcome q fd of
                                (True, Fin x) \<Rightarrow> [(n, x)]
                              | _ \<Rightarrow> []) kf)"

definition observed_similarities :: "feature_list \<Rightarrow> known_faces \<Rightarrow> real list" where
  "observed_similarities q kf =
     concat (map (\<lambda>(n, fd). case outcome q fd of (m, Fin x) \<Rightarrow> [x] | (m, NaN) \<Rightarrow> []) kf)"

text \<open>
  Tracking \<open>the best (name, similarity) seen so far\<close> over a list of pairs: a later
  pair replaces the tracked one when its similarity is strictly greater.
\<close>

fun track_best :: "(string \<times> real) option \<Rightarrow> (string \<times> real) list \<Rightarrow> (string \<times> real) option" where
  "track_best best [] = best"
| "track_best None (p # ps) = track_best (Some p) ps"
| "track_best (Some (n, x)) ((n', x') # ps) =
     track_best (if x < x' then Some (n', x') else Some (n, x)) ps"

definition best_matched_name :: "feature_list \<Rightarrow> known_faces \<Rightarrow> string option" where
  "best_matched_name q kf = map_option fst (track_best None (matched_pairs q kf))"

section \<open>Facts about the scorer\<close>

lemma sum_squares_nonneg: "0 \<le> (\<Sum>x\<leftarrow>xs. x * x)" for xs :: "real list"
  by (induction xs) simp_all

lemma sum_squares_eq_0_iff: "(\<Sum>x\<leftarrow>xs. x * x) = 0 \<longleftrightarrow> (\<forall>x\<in>set xs. x = 0)"
  for xs :: "real list"
proof (induction xs)
  case Nil
  show ?case by simp
next
  case (Cons a xs)
  have "a * a + (\<Sum>x\<leftarrow>xs. x * x) = 0 \<longleftrightarrow> a * a = 0 \<and> (\<Sum>x\<leftarrow>xs. x * x) = 0"
    using sum_squares_nonneg [of xs] by (intro add_nonneg_eq_0_iff) simp_all
  with Cons show ?case by simp
qed

lemma linalg_norm_eq_0_iff: "linalg_norm xs = 0 \<longleftrightarrow> (\<forall>x\<in>set xs. x = 0)"
  by (simp add: linalg_norm_def sum_squares_eq_0_iff)



lemma foldr_fl_add_NaN_left:
  "length xs = length ys \<Longrightarrow> xs \<noteq> [] \<Longrightarrow>
   foldr fl_add (map2 fl_mul (map (\<lambda>x. NaN) xs) ys) (Fin 0) = NaN"
  by (induction xs ys rule: list_induct2) simp_all

lemma foldr_fl_add_NaN_right:
  "length xs = length ys \<Longrightarrow> ys \<noteq> [] \<Longrightarrow>
   foldr fl_add (map2 fl_mul xs (map (\<lambda>x. NaN) ys)) (Fin 0) = NaN"
proof (induction xs ys rule: list_induct2)
  case Nil
  then show ?case by simp
next
  case (Cons x xs y ys)
  show ?case by (cases x) simp_all
qed


lemma l2_normalize_zero: "\<forall>x\<in>set xs. x = 0 \<Longrightarrow> l2_normalize xs = map (\<lambda>x. NaN) xs"
  by (simp add: l2_normalize_def Let_def linalg_norm_eq_0_iff)

lemma length_l2_normalize [simp]: "length (l2_normalize xs) = length xs"
  by (simp add: l2_normalize_def Let_def)




lemma compare_faces_similarity:
  "length a = length b \<Longrightarrow>
   compare_faces a b t = Inr (fl_gt (similarity a b) (Fin t), similarity a b)"
  by (simp add: compare_faces_def np_dot_def similarity_def)

lemma compare_faces_mismatch: "length a \<noteq> length b \<Longrightarrow> compare_faces a b t = Inl ValueError"
  by (simp add: compare_faces_def np_dot_def)

lemma similarity_zero_left:
  "\<forall>x\<in>set a. x = 0 \<Longrightarrow> a \<noteq> [] \<Longrightarrow> length a = length b \<Longrightarrow> similarity a b = NaN"
  by (simp add: similarity_def l2_normalize_zero foldr_fl_add_NaN_left)

lemma similarity_zero_right:
  "\<forall>x\<in>set b. x = 0 \<Longrightarrow> b \<noteq> [] \<Longrightarrow> length a = length b \<Longrightarrow> similarity a b = NaN"
  by (simp add: similarity_def l2_normalize_zero foldr_fl_add_NaN_right)

text \<open>Evaluating norms and similarities of concrete vectors.\<close>

lemma sqrt_4: "sqrt 4 = 2" by (rule real_sqrt_unique) simp_all
lemma sqrt_25: "sqrt 25 = 5" by (rule real_sqrt_unique) simp_all
lemma sqrt_169: "sqrt 169 = 13" by (rule real_sqrt_unique) simp_all
lemma sqrt_196: "sqrt 196 = 14" by (rule real_sqrt_unique) simp_all
lemma sqrt_841: "sqrt 841 = 29" by (rule real_sqrt_unique) simp_all
lemma sqrt_1521: "sqrt 1521 = 39" by (rule real_sqrt_unique) simp_all

lemmas sim_eval =
  similarity_def l2_normalize_def linalg_norm_def Let_def
  sqrt_4 sqrt_25 sqrt_169 sqrt_196 sqrt_841 sqrt_1521

text \<open>
  C6, as the code behaves. \<open>compare_faces\<close> has no check for a zero norm: with a
  descriptor that is exactly the zero vector (and a second descriptor of the same,
  non-zero, length) it raises nothing and returns the verdict \<open>False\<close> with the
  similarity \<open>nan\<close>, for every threshold and whichever argument is the zero vector.
\<close>

theorem compare_faces_zero_vector:
  assumes "\<forall>x\<in>set a. x = 0" and "a \<noteq> []" and "length a = length b"
  shows "compare_faces a b t = Inr (False, NaN) \<and> compare_faces b a t = Inr (False, NaN)"
proof -
  have "b \<noteq> []" using assms(2,3) by auto
  have "similarity a b = NaN"
    using assms by (rule similarity_zero_left)
  moreover have "similarity b a = NaN"
    using assms by (intro similarity_zero_right) simp_all
  ultimately show ?thesis
    using assms(3) by (simp add: compare_faces_similarity)
qed

theorem compare_faces_zero_vector_witness:
  "compare_faces [0, 0] [3, 4] (6 / 10) = Inr (False, NaN)
   \<and> compare_faces [3, 4] [0, 0] (6 / 10) = Inr (False, NaN)"
  using compare_faces_zero_vector [of "[0, 0]" "[3, 4]" "6 / 10"] by simp

text \<open>
  C6, as stated, fails: at the zero vector \<open>[0, 0]\<close> against \<open>[1, 0]\<close> with the default
  threshold the call does not raise; it returns a \<open>nan\<close> similarity.
\<close>

theorem compare_faces_zero_vector_no_error:
  "compare_faces [0, 0] [1, 0] (6 / 10) = Inr (False, NaN)
   \<and> compare_faces [0, 0] [1, 0] (6 / 10) \<noteq> Inl ValueError"
  by (simp add: compare_faces_def np_dot_def l2_normalize_def linalg_norm_def)

section \<open>Deleting a face\<close>





section \<open>Enrollment leaves the store alone when it fails\<close>



section \<open>The empty name\<close>

text \<open>
  C7. Enrolling through the route with a name that is empty (or only white space, since
  the route strips it) fails with \<open>Name is required\<close> for every list of images, before
  anything else is looked at, and the recognizer is unchanged: no record is written.
\<close>

theorem register_multiple_empty_name:
  assumes "strip request_name = []"
  shows "register_multiple st decode det ext now str_of request_name images_data
         = ((False, ''Name is required''), st)"
  using assms by (simp add: register_multiple_def)

theorem register_multiple_empty_name_witness:
  "strip [] = [] \<and> strip ''  '' = []
   \<and> register_multiple example_recognizer (\<lambda>d. Image [[1, 0, 0]]) example_detector
        example_extractor ''now'' (\<lambda>e. ''shapes not aligned'') [] [''a'', ''b'', ''c'']
      = ((False, ''Name is required''), example_recognizer)"
proof -
  have h: "strip [] = []" by (simp add: strip_def)
  have h2: "strip ''  '' = []" by (simp add: strip_def is_space_def)
  show ?thesis
    using h h2 register_multiple_empty_name [OF h] by simp
qed

section \<open>Recognition with an empty store\<close>

lemma rint_0: "rint 0 = 0"
  by (simp add: rint_def)

lemma recognize_each_empty_store:
  "recognize_each [] ext img faces
   = Inr (map (\<lambda>face_coords. \<lparr>res_name = ''Unknown'', res_confidence = Fin 0,
                               res_coordinates = face_coords\<rparr>) faces)"
  by (induction faces) (simp_all add: recognize_one_def or_unknown_def rint_0)

text \<open>
  C10. With no enrolled record, \<open>recognize_face\<close> on an image in which the detector
  finds at least one face returns one result per detected face, in the detector's order,
  each with the name \<open>Unknown\<close> and the confidence 0.
\<close>

theorem recognize_face_empty_store:
  assumes "known_faces st = []" and "det img \<noteq> []"
  shows "recognize_face st det ext img
         = Inr (map (\<lambda>face_coords. \<lparr>res_name = ''Unknown'', res_confidence = Fin 0,
                                     res_coordinates = face_coords\<rparr>) (det img),
                ''Recognition completed'')"
  using assms by (simp add: recognize_face_def recognize_each_empty_store)

theorem recognize_face_empty_store_witness:
  "recognize_face \<lparr>known_faces = [], face_data_file = Absent\<rparr> example_detector example_extractor
     [[1, 0, 0], [3, 0, 4]]
   = Inr ([\<lparr>res_name = ''Unknown'', res_confidence = Fin 0, res_coordinates = [0, 0, 10, 10]\<rparr>,
           \<lparr>res_name = ''Unknown'', res_confidence = Fin 0, res_coordinates = [1, 0, 10, 10]\<rparr>],
          ''Recognition completed'')"
proof -
  have d: "example_detector [[1, 0, 0], [3, 0, 4]] = [[0, 0, 10, 10], [1, 0, 10, 10]]"
    by (simp add: example_detector_def upt_rec)
  show ?thesis
    using recognize_face_empty_store [of "\<lparr>known_faces = [], face_data_file = Absent\<rparr>"
        example_detector "[[1, 0, 0], [3, 0, 4]]" example_extractor]
    by (simp add: d)
qed

section \<open>The duplicate guard returns the first similar record\<close>

lemma any_individual_similar_eq:
  "\<forall>g\<in>set gs. length g = length q \<Longrightarrow>
   any_individual_similar q gs t = Inr (\<exists>g\<in>set gs. fl_gt (similarity q g) (Fin t))"
  by (induction gs) (simp_all add: compare_faces_similarity)

lemma check_face_similarity_step:
  assumes "same_length q fd"
  shows "check_face_similarity ((n, fd) # rest) q t
         = (if record_similar q t fd then Inr (Some n) else check_face_similarity rest q t)"
proof (cases "all_features fd")
  case None
  then show ?thesis
    using assms
    by (simp add: same_length_def record_similar_def samples_def compare_faces_similarity)
next
  case (Some individual)
  then have "\<forall>g\<in>set individual. length g = length q"
    using assms by (simp add: same_length_def samples_def)
  then have "any_individual_similar q individual t
             = Inr (\<exists>g\<in>set individual. fl_gt (similarity q g) (Fin t))"
    by (rule any_individual_similar_eq)
  then show ?thesis
    using assms Some
    by (simp add: same_length_def record_similar_def samples_def compare_faces_similarity)
qed

lemma check_face_similarity_find:
  "\<forall>(n, fd)\<in>set kf. same_length q fd \<Longrightarrow>
   check_face_similarity kf q t
   = Inr (map_option fst (find (\<lambda>(n, fd). record_similar q t fd) kf))"
proof (induction kf)
  case Nil
  show ?case by simp
next
  case (Cons r kf)
  obtain n fd where r: "r = (n, fd)" by (cases r)
  with Cons.prems have "same_length q fd" by simp
  then show ?case
    using Cons r by (simp add: check_face_similarity_step del: check_face_similarity.simps)
qed

lemma check_face_similarity_key:
  "check_face_similarity kf q t = Inr (Some n) \<Longrightarrow> n \<in> fst ` set kf"
proof (induction kf)
  case Nil
  then show ?case by simp
next
  case (Cons r kf)
  obtain m fd where r: "r = (m, fd)" by (cases r)
  show ?case
    using Cons r
    by (auto split: sum.splits option.splits if_splits prod.splits)
qed

lemma check_face_similarity_append:
  "\<forall>(m, fd')\<in>set pre. same_length q fd' \<and> \<not> record_similar q t fd' \<Longrightarrow>
   check_face_similarity (pre @ rest) q t = check_face_similarity rest q t"
proof (induction pre)
  case Nil
  show ?case by simp
next
  case (Cons r pre)
  obtain m fd where r: "r = (m, fd)" by (cases r)
  with Cons.prems have "same_length q fd" "\<not> record_similar q t fd" by simp_all
  then show ?case
    using Cons r by (simp add: check_face_similarity_step del: check_face_similarity.simps)
qed

text \<open>
  C5. For every store whose descriptors have the query's length and every query, the
  guard returns the name of the first record, in the store's order, whose primary
  descriptor or one of whose sample descriptors has similarity strictly above the
  threshold with the query. It returns \<open>None\<close> exactly when no record is similar, every
  name it returns is a key of the store, and it returns at the first similar record
  whatever follows it in the store.
\<close>

theorem check_face_similarity_first_match:
  assumes "\<forall>(n, fd)\<in>set kf. same_length q fd"
  shows "check_face_similarity kf q t
           = Inr (map_option fst (find (\<lambda>(n, fd). record_similar q t fd) kf))
         \<and> (check_face_similarity kf q t = Inr None
              \<longleftrightarrow> (\<forall>(n, fd)\<in>set kf. \<not> record_similar q t fd))
         \<and> (\<forall>n. check_face_similarity kf q t = Inr (Some n) \<longrightarrow> n \<in> fst ` set kf)
         \<and> (\<forall>n fd later.
               (\<forall>(m, fd')\<in>set kf. \<not> record_similar q t fd') \<and> same_length q fd
                 \<and> record_similar q t fd
               \<longrightarrow> check_face_similarity (kf @ (n, fd) # later) q t = Inr (Some n))"
proof (intro conjI allI impI)
  show eq: "check_face_similarity kf q t
        = Inr (map_option fst (find (\<lambda>(n, fd). record_similar q t fd) kf))"
    using assms by (rule check_face_similarity_find)
  show "check_face_similarity kf q t = Inr None
        \<longleftrightarrow> (\<forall>(n, fd)\<in>set kf. \<not> record_similar q t fd)"
    unfolding eq by (auto simp: find_None_iff)
  show "n \<in> fst ` set kf" if "check_face_similarity kf q t = Inr (Some n)" for n
    using that by (rule check_face_similarity_key)
  show "check_face_similarity (kf @ (n, fd) # later) q t = Inr (Some n)"
    if "(\<forall>(m, fd')\<in>set kf. \<not> record_similar q t fd') \<and> same_length q fd
          \<and> record_similar q t fd" for n fd later
  proof -
    have "\<forall>(m, fd')\<in>set kf. same_length q fd' \<and> \<not> record_similar q t fd'"
      using assms that by auto
    then have "check_face_similarity (kf @ (n, fd) # later) q t
               = check_face_similarity ((n, fd) # later) q t"
      by (rule check_face_similarity_append)
    then show ?thesis
      using that by (simp add: check_face_similarity_step del: check_face_similarity.simps)
  qed
qed

theorem check_face_similarity_first_match_witness:
  "same_length [1, 0, 0] ann \<and> same_length [1, 0, 0] fay \<and> same_length [1, 0, 0] eve
   \<and> check_face_similarity [(''ann'', ann), (''fay'', fay), (''eve'', eve)] [1, 0, 0] (85 / 100)
       = Inr (Some ''fay'')
   \<and> \<not> record_similar [1, 0, 0] (85 / 100) ann
   \<and> record_similar [1, 0, 0] (85 / 100) fay
   \<and> record_similar [1, 0, 0] (85 / 100) eve"
proof -
  have h: "\<forall>(n, fd)\<in>set [(''ann'', ann), (''fay'', fay), (''eve'', eve)]. same_length [1, 0, 0] fd"
    by (simp add: same_length_def samples_def ann_def fay_def eve_def enrolled_def)
  have a: "\<not> record_similar [1, 0, 0] (85 / 100) ann"
    by (simp add: record_similar_def samples_def ann_def enrolled_def sim_eval)
  have f: "record_similar [1, 0, 0] (85 / 100) fay"
    by (simp add: record_similar_def samples_def fay_def enrolled_def sim_eval)
  have e: "record_similar [1, 0, 0] (85 / 100) eve"
    by (simp add: record_similar_def samples_def eve_def enrolled_def sim_eval)
  show ?thesis
    using h a f e check_face_similarity_first_match [OF h, of "85 / 100"]
    by simp
qed

section \<open>The order of the enrollment checks\<close>

lemma collect_features_passes:
  "\<forall>p\<in>set pre. passes det ext kf p \<Longrightarrow>
   \<exists>acc'. collect_features det ext kf i (pre @ rest) acc
          = collect_features det ext kf (i + length pre) rest acc'"
proof (induction pre arbitrary: i acc)
  case Nil
  show ?case by auto
next
  case (Cons p pre)
  from Cons.prems have p: "passes det ext kf p" and rest: "\<forall>p\<in>set pre. passes det ext kf p"
    by simp_all
  from p obtain face_coords where d: "det p = [face_coords]"
    by (auto simp: passes_def split: list.splits)
  let ?acc = "acc @ [ext p face_coords]"
  have step: "collect_features det ext kf i ((p # pre) @ rest) acc
              = collect_features det ext kf (i + 1) (pre @ rest) ?acc"
    using p d by (auto simp: passes_def split: sum.splits option.splits)
  from Cons.IH [OF rest, of "i + 1" ?acc]
  obtain acc' where "collect_features det ext kf (i + 1) (pre @ rest) ?acc
                     = collect_features det ext kf (i + 1 + length pre) rest acc'"
    by blast
  with step show ?case
    by (auto simp: add.commute add.left_commute)
qed

lemma collect_features_first_failure:
  assumes "\<forall>p\<in>set pre. passes det ext kf p"
  shows "(det img = [] \<longrightarrow>
            collect_features det ext kf 0 (pre @ img # rest) [] = Inr (Inl (msg_no_face (length pre + 1))))
         \<and> (1 < length (det img) \<longrightarrow>
            collect_features det ext kf 0 (pre @ img # rest) []
              = Inr (Inl (msg_multiple_faces (length pre + 1))))
         \<and> (\<forall>face_coords d.
              det img = [face_coords]
                \<and> check_face_similarity kf (ext img face_coords) (85 / 100) = Inr (Some d) \<and> d \<noteq> []
              \<longrightarrow> collect_features det ext kf 0 (pre @ img # rest) [] = Inr (Inl (msg_face_exists d)))"
proof -
  obtain acc' where
    eq: "collect_features det ext kf 0 (pre @ img # rest) []
         = collect_features det ext kf (length pre) (img # rest) acc'"
    using collect_features_passes [OF assms, of 0 "img # rest" "[]"] by auto
  show ?thesis
    unfolding eq by (auto split: list.splits)
qed

text \<open>
  C4, as the code orders its checks. \<open>register_face\<close> first requires exactly 3 images
  (whatever they hold), then a name that is not a key of the store. After that it walks
  the images in submission order and, for each image, first requires exactly one detected
  face and then at once runs the guard at 0.85 against the unchanged store on that
  image's descriptor. The first image that fails either check gives the failure: no face
  or several faces with the image's number, or the non-empty name the guard matched. So a
  duplicate on an earlier image is reported before a detection failure on a later one.
\<close>

theorem register_face_check_order:
  "(length images \<noteq> 3 \<longrightarrow>
      register_face st det ext now images name
        = (Inr (False, ''Exactly 3 images are required''), st))
   \<and> (length images = 3 \<and> dict_contains (known_faces st) name \<longrightarrow>
        register_face st det ext now images name = (Inr (False, msg_name_exists name), st))
   \<and> (\<forall>pre img rest.
        length images = 3 \<and> \<not> dict_contains (known_faces st) name \<and> images = pre @ img # rest
          \<and> (\<forall>p\<in>set pre. passes det ext (known_faces st) p)
        \<longrightarrow> (det img = [] \<longrightarrow>
               register_face st det ext now images name
                 = (Inr (False, msg_no_face (length pre + 1)), st))
            \<and> (1 < length (det img) \<longrightarrow>
               register_face st det ext now images name
                 = (Inr (False, msg_multiple_faces (length pre + 1)), st))
            \<and> (\<forall>face_coords d.
                 det img = [face_coords]
                   \<and> check_face_similarity (known_faces st) (ext img face_coords) (85 / 100)
                       = Inr (Some d)
                   \<and> d \<noteq> []
                 \<longrightarrow> register_face st det ext now images name
                       = (Inr (False, msg_face_exists d), st)))"
proof (intro conjI allI impI)
  show "register_face st det ext now images name
        = (Inr (False, ''Exactly 3 images are required''), st)" if "length images \<noteq> 3"
    using that by (simp add: register_face_def)
  show "register_face st det ext now images name = (Inr (False, msg_name_exists name), st)"
    if "length images = 3 \<and> dict_contains (known_faces st) name"
    using that by (simp add: register_face_def)
next
  fix pre img rest
  assume h: "length images = 3 \<and> \<not> dict_contains (known_faces st) name
      \<and> images = pre @ img # rest \<and> (\<forall>p\<in>set pre. passes det ext (known_faces st) p)"
  then have p: "\<forall>p\<in>set pre. passes det ext (known_faces st) p" by simp
  note ff = collect_features_first_failure [OF p, of img rest]
  have reg: "register_face st det ext now images name = (Inr (False, message), st)"
    if "collect_features det ext (known_faces st) 0 (pre @ img # rest) [] = Inr (Inl message)"
    for message
  proof -
    have len: "length images = 3" and nd: "\<not> dict_contains (known_faces st) name"
      and im: "images = pre @ img # rest"
      using h by blast+
    have "collect_features det ext (known_faces st) 0 images [] = Inr (Inl message)"
      using that im by simp
    then show ?thesis
      using len nd by (simp add: register_face_def)
  qed
  show "register_face st det ext now images name
        = (Inr (False, msg_no_face (length pre + 1)), st)" if "det img = []"
    using ff that by (intro reg) blast
  show "register_face st det ext now images name
        = (Inr (False, msg_multiple_faces (length pre + 1)), st)" if "1 < length (det img)"
    using ff that by (intro reg) blast
  show "register_face st det ext now images name = (Inr (False, msg_face_exists d), st)"
    if "det img = [face_coords]
        \<and> check_face_similarity (known_faces st) (ext img face_coords) (85 / 100) = Inr (Some d)
        \<and> d \<noteq> []" for face_coords d
    using ff that by (intro reg) blast
qed

lemma example_detector_one: "example_detector [d] = [[0, 0, 10, 10]]"
  by (simp add: example_detector_def)

lemma example_detector_none: "example_detector [] = []"
  by (simp add: example_detector_def)

lemma example_extractor_one: "example_extractor [d] [0, 0, 10, 10] = d"
  by (simp add: example_extractor_def)

lemma guard_ann: "check_face_similarity (known_faces example_recognizer) [3, 0, 4] (85 / 100) = Inr (Some ''ann'')"
  by (simp add: example_recognizer_def ann_def enrolled_def compare_faces_similarity sim_eval)

lemma guard_none: "check_face_similarity (known_faces example_recognizer) [0, 1, 0] (85 / 100) = Inr None"
  by (simp add: example_recognizer_def ann_def eve_def enrolled_def compare_faces_similarity sim_eval)

lemma not_zoe: "\<not> dict_contains (known_faces example_recognizer) ''zoe''"
  by (simp add: dict_contains_def example_recognizer_def)

text \<open>
  C4, as stated, fails. The first image holds one face, the face of \<open>ann\<close>; the second
  image holds no face. The claim has the detection failure on image 2 reported; the code
  reports the duplicate found on image 1 and never looks at image 2.
\<close>

theorem register_face_duplicate_before_no_face:
  "example_detector [] = []
   \<and> register_face example_recognizer example_detector example_extractor ''now''
        [[[3, 0, 4]], [], [[0, 1, 0]]] ''zoe''
      = (Inr (False, msg_face_exists ''ann''), example_recognizer)
   \<and> msg_face_exists ''ann'' \<noteq> msg_no_face 2"
  using guard_ann
  by (simp add: register_face_def not_zoe example_detector_one example_detector_none
      example_extractor_one msg_face_exists_def msg_no_face_def Let_def)

theorem register_face_check_order_witness:
  "register_face example_recognizer example_detector example_extractor ''now'' [] ''zoe''
     = (Inr (False, ''Exactly 3 images are required''), example_recognizer)
   \<and> register_face example_recognizer example_detector example_extractor ''now''
        [[[0, 1, 0]], [[0, 1, 0]], [[0, 1, 0]]] ''eve''
     = (Inr (False, msg_name_exists ''eve''), example_recognizer)
   \<and> passes example_detector example_extractor (known_faces example_recognizer) [[0, 1, 0]]
   \<and> register_face example_recognizer example_detector example_extractor ''now''
        [[[0, 1, 0]], [], [[0, 1, 0]]] ''zoe''
     = (Inr (False, msg_no_face 2), example_recognizer)
   \<and> register_face example_recognizer example_detector example_extractor ''now''
        [[[0, 1, 0]], [[3, 0, 4]], []] ''zoe''
     = (Inr (False, msg_face_exists ''ann''), example_recognizer)"
proof -
  let ?reg = "register_face example_recognizer example_detector example_extractor ''now''"
  have eve: "dict_contains (known_faces example_recognizer) ''eve''"
    by (simp add: dict_contains_def example_recognizer_def)
  have p: "passes example_detector example_extractor (known_faces example_recognizer) [[0, 1, 0]]"
    using guard_none by (simp add: passes_def example_detector_one example_extractor_one)
  have w1: "?reg [] ''zoe'' = (Inr (False, ''Exactly 3 images are required''), example_recognizer)"
    using register_face_check_order [where images = "[]" and st = example_recognizer
        and det = example_detector and ext = example_extractor and now = "''now''"
        and name = "''zoe''"] by simp
  have w2: "?reg [[[0, 1, 0]], [[0, 1, 0]], [[0, 1, 0]]] ''eve''
            = (Inr (False, msg_name_exists ''eve''), example_recognizer)"
    using eve register_face_check_order [where images = "[[[0, 1, 0]], [[0, 1, 0]], [[0, 1, 0]]]"
        and st = example_recognizer and det = example_detector and ext = example_extractor
        and now = "''now''" and name = "''eve''"] by simp
  have w3: "?reg [[[0, 1, 0]], [], [[0, 1, 0]]] ''zoe''
            = (Inr (False, msg_no_face 2), example_recognizer)"
    using p not_zoe example_detector_none
      register_face_check_order [where images = "[[[0, 1, 0]], [], [[0, 1, 0]]]"
        and st = example_recognizer and det = example_detector and ext = example_extractor
        and now = "''now''" and name = "''zoe''",
        THEN conjunct2, THEN conjunct2, rule_format, of "[[[0, 1, 0]]]" "[]" "[[[0, 1, 0]]]"]
    by (simp add: numeral_2_eq_2)
  have w4: "?reg [[[0, 1, 0]], [[3, 0, 4]], []] ''zoe''
            = (Inr (False, msg_face_exists ''ann''), example_recognizer)"
    using p not_zoe guard_ann example_detector_one [of "[3, 0, 4]"]
      example_extractor_one [of "[3, 0, 4]"]
      register_face_check_order [where images = "[[[0, 1, 0]], [[3, 0, 4]], []]"
        and st = example_recognizer and det = example_detector and ext = example_extractor
        and now = "''now''" and name = "''zoe''",
        THEN conjunct2, THEN conjunct2, rule_format, of "[[[0, 1, 0]]]" "[[3, 0, 4]]" "[[]]"]
    by simp
  show ?thesis
    using w1 w2 p w3 w4 by simp
qed

section \<open>Refinement against the samples of a record\<close>

lemma best_individual_Max:
  "\<forall>g\<in>set gs. length g = length q \<Longrightarrow>
   best_individual q gs (Fin b) = Inr (Fin (Max (set (b # finite_similarities q gs))))"
proof (induction gs arbitrary: b)
  case Nil
  show ?case by (simp add: finite_similarities_def)
next
  case (Cons g gs)
  then have len: "length q = length g" and rest: "\<forall>g\<in>set gs. length g = length q"
    by simp_all
  show ?case
  proof (cases "similarity q g")
    case NaN
    then show ?thesis
      using Cons.IH [OF rest, of b] len
      by (simp add: compare_faces_similarity py_max_def finite_similarities_def)
  next
    case (Fin x)
    have fs: "finite_similarities q (g # gs) = x # finite_similarities q gs"
      using Fin by (simp add: finite_similarities_def)
    have "best_individual q (g # gs) (Fin b) = best_individual q gs (Fin (max b x))"
      using Fin len by (simp add: compare_faces_similarity py_max_def max_def)
    also have "\<dots> = Inr (Fin (Max (set (max b x # finite_similarities q gs))))"
      by (rule Cons.IH [OF rest])
    also have "Max (set (max b x # finite_similarities q gs))
               = Max (set (b # finite_similarities q (g # gs)))"
      unfolding fs by (cases "finite_similarities q gs = []") (simp_all add: max.assoc)
    finally show ?thesis .
  qed
qed

text \<open>
  C2, as the code refines. The refinement is made for each record of the store in turn,
  on that record's own primary similarity, not only for the record with the best primary
  similarity. For a record whose descriptors have the query's length: when the record has
  sample descriptors and its primary similarity is below 0.8, the query is compared with
  every sample descriptor of the record, the refined similarity is the maximum of the
  primary similarity and the sample similarities, and the verdict is refined similarity
  strictly above 0.75. Otherwise (no sample descriptors, or a primary similarity that is
  not below 0.8) the primary similarity and its verdict at 0.6 stand.
\<close>

theorem match_known_refinement:
  assumes "same_length q fd"
  shows "(all_features fd = None \<or> \<not> fl_lt (similarity q (face_data.features fd)) (Fin (8 / 10))
            \<longrightarrow> match_known q fd
                  = Inr (fl_gt (similarity q (face_data.features fd)) (Fin (6 / 10)),
                         similarity q (face_data.features fd)))
         \<and> (\<forall>p. all_features fd \<noteq> None \<and> similarity q (face_data.features fd) = Fin p \<and> p < 8 / 10
              \<longrightarrow> match_known q fd
                    = Inr (75 / 100 < Max (set (p # finite_similarities q (samples fd))),
                           Fin (Max (set (p # finite_similarities q (samples fd))))))"
proof (intro conjI allI impI)
  have len: "length q = length (face_data.features fd)"
    using assms by (simp add: same_length_def)
  show "match_known q fd
        = Inr (fl_gt (similarity q (face_data.features fd)) (Fin (6 / 10)),
               similarity q (face_data.features fd))"
    if "all_features fd = None \<or> \<not> fl_lt (similarity q (face_data.features fd)) (Fin (8 / 10))"
    using that len by (auto simp: match_known_def compare_faces_similarity split: option.splits)
  show "match_known q fd
        = Inr (75 / 100 < Max (set (p # finite_similarities q (samples fd))),
               Fin (Max (set (p # finite_similarities q (samples fd)))))"
    if h: "all_features fd \<noteq> None \<and> similarity q (face_data.features fd) = Fin p \<and> p < 8 / 10"
    for p
  proof -
    from h obtain individual where ind: "all_features fd = Some individual" by auto
    then have s: "samples fd = individual" by (simp add: samples_def)
    have "\<forall>g\<in>set individual. length g = length q"
      using assms s by (simp add: same_length_def)
    then have "best_individual q individual (Fin p)
               = Inr (Fin (Max (set (p # finite_similarities q individual))))"
      by (rule best_individual_Max)
    then show ?thesis
      using h ind s len by (simp add: match_known_def compare_faces_similarity)
  qed
qed

lemma same_length_dan: "same_length [1, 0, 0] dan"
  by (simp add: same_length_def samples_def dan_def enrolled_def)

lemma same_length_eve: "same_length [1, 0, 0] eve"
  by (simp add: same_length_def samples_def eve_def enrolled_def)

lemma primary_dan: "similarity [1, 0, 0] (face_data.features dan) = Fin (16 / 21)"
  by (simp add: dan_def enrolled_def sim_eval)

lemma primary_eve: "similarity [1, 0, 0] (face_data.features eve) = Fin (12 / 13)"
  by (simp add: eve_def enrolled_def sim_eval)

lemma primary_fay: "similarity [1, 0, 0] (face_data.features fay) = Fin (2 / 3)"
  by (simp add: fay_def enrolled_def sim_eval)

lemma samples_dan: "finite_similarities [1, 0, 0] (samples dan) = [0, 3 / 5, 29 / 39]"
  by (simp add: finite_similarities_def samples_def dan_def enrolled_def sim_eval)

lemma match_known_dan: "match_known [1, 0, 0] dan = Inr (True, Fin (16 / 21))"
  by (simp add: match_known_def dan_def enrolled_def compare_faces_similarity py_max_def sim_eval)

lemma match_known_eve: "match_known [1, 0, 0] eve = Inr (True, Fin (12 / 13))"
  by (simp add: match_known_def eve_def enrolled_def compare_faces_similarity py_max_def sim_eval)

lemma match_known_fay: "match_known [1, 0, 0] fay = Inr (True, Fin 1)"
  by (simp add: match_known_def fay_def enrolled_def compare_faces_similarity py_max_def sim_eval)

theorem match_known_refinement_witness:
  "same_length [1, 0, 0] eve \<and> same_length [1, 0, 0] dan
   \<and> \<not> fl_lt (similarity [1, 0, 0] (face_data.features eve)) (Fin (8 / 10))
   \<and> match_known [1, 0, 0] eve = Inr (True, Fin (12 / 13))
   \<and> all_features dan \<noteq> None
   \<and> similarity [1, 0, 0] (face_data.features dan) = Fin (16 / 21) \<and> (16 / 21 :: real) < 8 / 10
   \<and> match_known [1, 0, 0] dan = Inr (True, Fin (16 / 21))"
proof -
  have e: "\<not> fl_lt (similarity [1, 0, 0] (face_data.features eve)) (Fin (8 / 10))"
    by (simp add: primary_eve)
  have d: "all_features dan \<noteq> None"
    by (simp add: dan_def enrolled_def)
  have we: "match_known [1, 0, 0] eve = Inr (True, Fin (12 / 13))"
    using match_known_refinement [OF same_length_eve, THEN conjunct1] e primary_eve by simp
  have wd: "match_known [1, 0, 0] dan = Inr (True, Fin (16 / 21))"
    using match_known_refinement [OF same_length_dan, THEN conjunct2, rule_format, of "16 / 21"]
      d primary_dan samples_dan by simp
  show ?thesis
    using same_length_eve same_length_dan e d we wd primary_dan by simp
qed

text \<open>
  C2, as stated, fails twice. For \<open>dan\<close> the primary similarity 16/21 is below 0.8
  and the maximum found among the samples is 29/39, not above 0.75; the code's refined
  similarity is 16/21 and its verdict is a match. In the store of \<open>eve\<close> and \<open>fay\<close>
  the best primary similarity is 12/13, not below 0.8, so by the claim no sample is
  looked at; the code compares the samples of \<open>fay\<close> (primary similarity 2/3), finds
  similarity 1 there and reports \<open>fay\<close> with confidence 100.
\<close>

theorem match_known_refinement_counterexample:
  "match_known [1, 0, 0] dan = Inr (True, Fin (16 / 21))
   \<and> finite_similarities [1, 0, 0] (samples dan) = [0, 3 / 5, 29 / 39]
   \<and> Max (set (finite_similarities [1, 0, 0] (samples dan))) = 29 / 39
   \<and> \<not> (75 / 100 < (29 / 39 :: real))
   \<and> similarity [1, 0, 0] (face_data.features eve) = Fin (12 / 13)
   \<and> \<not> (12 / 13 < (8 / 10 :: real))
   \<and> similarity [1, 0, 0] (face_data.features fay) = Fin (2 / 3)
   \<and> recognize_one [(''eve'', eve), (''fay'', fay)] [1, 0, 0] [0, 0, 10, 10]
       = Inr \<lparr>res_name = ''fay'', res_confidence = Fin 100, res_coordinates = [0, 0, 10, 10]\<rparr>"
  by (simp add: match_known_dan samples_dan primary_eve primary_fay recognize_one_def
      match_known_eve match_known_fay or_unknown_def rint_def)

section \<open>Identity and confidence of a recognized face\<close>

lemma match_known_returns:
  assumes "same_length q fd"
  shows "\<exists>m s. match_known q fd = Inr (m, s)
               \<and> (all_features fd \<noteq> None \<longrightarrow> m = fl_gt s (Fin (75 / 100)))"
proof -
  have len: "length q = length (face_data.features fd)"
    using assms by (simp add: same_length_def)
  show ?thesis
  proof (cases "all_features fd")
    case None
    then show ?thesis
      using len by (simp add: match_known_def compare_faces_similarity)
  next
    case (Some individual)
    then have ind: "\<forall>g\<in>set individual. length g = length q"
      using assms by (simp add: same_length_def samples_def)
    show ?thesis
    proof (cases "similarity q (face_data.features fd)")
      case NaN
      then show ?thesis
        using len Some by (auto simp: match_known_def compare_faces_similarity)
    next
      case (Fin p)
      show ?thesis
      proof (cases "p < 8 / 10")
        case True
        then show ?thesis
          using len Some Fin best_individual_Max [OF ind, of p]
          by (simp add: match_known_def compare_faces_similarity)
      next
        case False
        then show ?thesis
          using len Some Fin by (auto simp: match_known_def compare_faces_similarity)
      qed
    qed
  qed
qed

lemma Max_set_absorb:
  "Max (set (b # x # l)) = Max (set (max b x # l))" for b :: real
  by (cases "l = []") (simp_all add: max.assoc)

lemma scan_known_faces_track:
  assumes "\<forall>(n, fd)\<in>set kf. same_length q fd \<and> all_features fd \<noteq> None"
    and "case acc of None \<Rightarrow> bm = None \<and> b \<le> 75 / 100
         | Some (n, x) \<Rightarrow> bm = Some n \<and> x = b \<and> 75 / 100 < b"
  shows "scan_known_faces q kf (bm, Fin b)
         = Inr (map_option fst (track_best acc (matched_pairs q kf)),
                Fin (Max (set (b # observed_similarities q kf))))"
  using assms
proof (induction kf arbitrary: acc bm b)
  case Nil
  then show ?case
    by (auto simp: matched_pairs_def observed_similarities_def split: option.splits)
next
  case (Cons r kf)
  obtain n fd where r: "r = (n, fd)" by (cases r)
  from Cons.prems(1) r have sl: "same_length q fd" and af: "all_features fd \<noteq> None"
    and rest: "\<forall>(n, fd)\<in>set kf. same_length q fd \<and> all_features fd \<noteq> None"
    by simp_all
  from match_known_returns [OF sl] af obtain m s where
    mk: "match_known q fd = Inr (m, s)" and m: "m = fl_gt s (Fin (75 / 100))"
    by blast
  have oc: "outcome q fd = (m, s)"
    using mk by (simp add: outcome_def)
  show ?case
  proof (cases s)
    case NaN
    have "scan_known_faces q (r # kf) (bm, Fin b) = scan_known_faces q kf (bm, Fin b)"
      using r mk NaN by simp
    moreover have "matched_pairs q (r # kf) = matched_pairs q kf"
      using r oc NaN m by (simp add: matched_pairs_def)
    moreover have "observed_similarities q (r # kf) = observed_similarities q kf"
      using r oc NaN by (simp add: observed_similarities_def)
    ultimately show ?thesis
      using Cons.IH [OF rest Cons.prems(2)] by simp
  next
    case (Fin x)
    have ob: "observed_similarities q (r # kf) = x # observed_similarities q kf"
      using r oc Fin by (simp add: observed_similarities_def)
    have mx: "m = (75 / 100 < x)"
      using m Fin by simp
    show ?thesis
    proof (cases "b < x")
      case True
      have sc: "scan_known_faces q (r # kf) (bm, Fin b)
                = scan_known_faces q kf (if m then Some n else bm, Fin x)"
        using r mk Fin True by simp
      have mxb: "Max (set (b # observed_similarities q (r # kf)))
                 = Max (set (x # observed_similarities q kf))"
        unfolding ob Max_set_absorb using True by (simp add: max_def)
      show ?thesis
      proof (cases m)
        case True
        have mp: "matched_pairs q (r # kf) = (n, x) # matched_pairs q kf"
          using r oc Fin True by (simp add: matched_pairs_def)
        have tb: "track_best acc ((n, x) # matched_pairs q kf)
                  = track_best (Some (n, x)) (matched_pairs q kf)"
          using Cons.prems(2) \<open>b < x\<close> by (cases acc) auto
        have inv: "case Some (n, x) of None \<Rightarrow> Some n = None \<and> x \<le> 75 / 100
                   | Some (n', x') \<Rightarrow> Some n = Some n' \<and> x' = x \<and> 75 / 100 < x"
          using True mx by simp
        show ?thesis
          using Cons.IH [OF rest inv] sc True mp tb mxb by simp
      next
        case False
        have mp: "matched_pairs q (r # kf) = matched_pairs q kf"
          using r oc Fin False by (simp add: matched_pairs_def)
        have accN: "acc = None" "bm = None"
          using Cons.prems(2) False mx \<open>b < x\<close> by (cases acc; auto)+
        have inv: "case None :: (string \<times> real) option of None \<Rightarrow> bm = None \<and> x \<le> 75 / 100
                   | Some (n', x') \<Rightarrow> bm = Some n' \<and> x' = x \<and> 75 / 100 < x"
          using False mx accN by simp
        show ?thesis
          using Cons.IH [OF rest inv] sc False mp mxb accN by simp
      qed
    next
      case False
      have sc: "scan_known_faces q (r # kf) (bm, Fin b) = scan_known_faces q kf (bm, Fin b)"
        using r mk Fin False by simp
      have mxb: "Max (set (b # observed_similarities q (r # kf)))
                 = Max (set (b # observed_similarities q kf))"
        unfolding ob Max_set_absorb using False by (simp add: max_def)
      have tb: "track_best acc (matched_pairs q (r # kf)) = track_best acc (matched_pairs q kf)"
      proof (cases m)
        case True
        then have mp: "matched_pairs q (r # kf) = (n, x) # matched_pairs q kf"
          using r oc Fin by (simp add: matched_pairs_def)
        from True mx False Cons.prems(2) obtain n' where "acc = Some (n', b)"
          by (cases acc) auto
        then show ?thesis
          using mp False by simp
      next
        case False
        then show ?thesis
          using r oc Fin by (simp add: matched_pairs_def)
      qed
      show ?thesis
        using Cons.IH [OF rest Cons.prems(2)] sc mxb tb by simp
    qed
  qed
qed

lemma recognize_one_tracked:
  assumes "\<forall>(n, fd)\<in>set kf. same_length q fd \<and> all_features fd \<noteq> None"
  shows "recognize_one kf q face_coords
         = Inr \<lparr>res_name = or_unknown (best_matched_name q kf),
                res_confidence = round2 (Fin (Max (set (0 # observed_similarities q kf)) * 100)),
                res_coordinates = face_coords\<rparr>"
proof -
  have "scan_known_faces q kf (None, Fin 0)
        = Inr (map_option fst (track_best None (matched_pairs q kf)),
               Fin (Max (set (0 # observed_similarities q kf))))"
    by (rule scan_known_faces_track [OF assms]) simp
  then show ?thesis
    by (simp add: recognize_one_def best_matched_name_def)
qed

lemma recognize_each_tracked:
  assumes "\<forall>face_coords\<in>set faces. \<forall>(n, fd)\<in>set kf.
             same_length (ext img face_coords) fd \<and> all_features fd \<noteq> None"
  shows "recognize_each kf ext img faces
         = Inr (map (\<lambda>face_coords.
                  \<lparr>res_name = or_unknown (best_matched_name (ext img face_coords) kf),
                   res_confidence =
                     round2 (Fin (Max (set (0 # observed_similarities (ext img face_coords) kf)) * 100)),
                   res_coordinates = face_coords\<rparr>) faces)"
  using assms
proof (induction faces)
  case Nil
  show ?case by simp
next
  case (Cons f faces)
  then have "\<forall>(n, fd)\<in>set kf. same_length (ext img f) fd \<and> all_features fd \<noteq> None"
    by simp
  then show ?case
    using Cons by (simp add: recognize_one_tracked)
qed

text \<open>
  C1, as the code tracks. Take a store in which every record carries sample descriptors
  and has descriptors of the query's length. Then, for every detected face, in the
  detector's order, \<open>recognize_face\<close> emits as identity the name of the best
  (name, similarity) pair among the records whose comparison yielded a match, or
  \<open>Unknown\<close> when no comparison matched (or when that name is the empty string); and it
  emits the confidence \<open>round(b * 100, 2)\<close>, where \<open>b\<close> is the highest similarity
  observed across all records, matched or not, and 0 when no similarity above 0 was
  observed.
\<close>

theorem recognize_face_identity_confidence:
  assumes "det img \<noteq> []"
    and "\<forall>face_coords\<in>set (det img). \<forall>(n, fd)\<in>set (known_faces st).
           same_length (ext img face_coords) fd \<and> all_features fd \<noteq> None"
  shows "recognize_face st det ext img
         = Inr (map (\<lambda>face_coords.
                  \<lparr>res_name = or_unknown (best_matched_name (ext img face_coords) (known_faces st)),
                   res_confidence =
                     round2 (Fin (Max (set (0 # observed_similarities (ext img face_coords)
                                                 (known_faces st))) * 100)),
                   res_coordinates = face_coords\<rparr>) (det img),
                ''Recognition completed'')"
  using assms by (simp add: recognize_face_def recognize_each_tracked)

lemma match_known_ann: "match_known [1, 0, 0] ann = Inr (False, Fin (3 / 5))"
  by (simp add: match_known_def ann_def enrolled_def compare_faces_similarity py_max_def sim_eval)

lemma match_known_kim: "match_known [1, 0, 0] kim = Inr (False, Fin (21 / 29))"
  by (simp add: match_known_def kim_def enrolled_def compare_faces_similarity py_max_def sim_eval)

lemma match_known_old: "match_known [1, 0, 0] old = Inr (True, Fin (20 / 29))"
  by (simp add: match_known_def old_def legacy_def compare_faces_similarity sim_eval)

theorem recognize_face_identity_confidence_witness:
  "example_detector [[1, 0, 0]] = [[0, 0, 10, 10]]
   \<and> example_extractor [[1, 0, 0]] [0, 0, 10, 10] = [1, 0, 0]
   \<and> known_faces example_recognizer = [(''ann'', ann), (''eve'', eve)]
   \<and> same_length [1, 0, 0] ann \<and> all_features ann \<noteq> None
   \<and> same_length [1, 0, 0] eve \<and> all_features eve \<noteq> None
   \<and> best_matched_name [1, 0, 0] (known_faces example_recognizer) = Some ''eve''
   \<and> observed_similarities [1, 0, 0] (known_faces example_recognizer) = [3 / 5, 12 / 13]
   \<and> recognize_face example_recognizer example_detector example_extractor [[1, 0, 0]]
       = Inr ([\<lparr>res_name = ''eve'', res_confidence = Fin (9231 / 100),
                res_coordinates = [0, 0, 10, 10]\<rparr>], ''Recognition completed'')"
proof -
  have d: "example_detector [[1, 0, 0]] \<noteq> []"
    by (simp add: example_detector_one)
  have h: "\<forall>face_coords\<in>set (example_detector [[1, 0, 0]]).
             \<forall>(n, fd)\<in>set (known_faces example_recognizer).
               same_length (example_extractor [[1, 0, 0]] face_coords) fd \<and> all_features fd \<noteq> None"
    by (simp add: example_detector_one example_extractor_one example_recognizer_def
        same_length_def samples_def ann_def eve_def enrolled_def)
  have b: "best_matched_name [1, 0, 0] (known_faces example_recognizer) = Some ''eve''"
    by (simp add: best_matched_name_def matched_pairs_def outcome_def example_recognizer_def
        match_known_ann match_known_eve)
  have o: "observed_similarities [1, 0, 0] (known_faces example_recognizer) = [3 / 5, 12 / 13]"
    by (simp add: observed_similarities_def outcome_def example_recognizer_def
        match_known_ann match_known_eve)
  have k: "known_faces example_recognizer = [(''ann'', ann), (''eve'', eve)]"
    by (simp add: example_recognizer_def)
  have sa: "same_length [1, 0, 0] ann \<and> all_features ann \<noteq> None"
    by (simp add: same_length_def samples_def ann_def enrolled_def)
  have se: "same_length [1, 0, 0] eve \<and> all_features eve \<noteq> None"
    by (simp add: same_length_def samples_def eve_def enrolled_def)
  have r: "recognize_face example_recognizer example_detector example_extractor [[1, 0, 0]]
       = Inr ([\<lparr>res_name = ''eve'', res_confidence = Fin (9231 / 100),
                res_coordinates = [0, 0, 10, 10]\<rparr>], ''Recognition completed'')"
    using d h b o
      recognize_face_identity_confidence [where det = example_detector
        and ext = example_extractor and img = "[[1, 0, 0]]" and st = example_recognizer]
    by (simp add: example_detector_one example_extractor_one or_unknown_def rint_def)
  show ?thesis
    using r k sa se b o by (simp add: example_detector_one example_extractor_one)
qed

text \<open>
  C1, as stated, fails. The best match is not tracked independently of the best
  similarity: a name is recorded only when its record also raises the running best
  similarity. In the store of \<open>kim\<close> and \<open>old\<close> (a record without sample descriptors)
  the comparison with \<open>kim\<close> yields no match at similarity 21/29, the comparison with
  \<open>old\<close> yields a match at 20/29, and the code emits \<open>Unknown\<close>. A record enrolled
  under the empty name is emitted as \<open>Unknown\<close> as well, although it is the best match.
\<close>

theorem recognize_face_identity_counterexample:
  "outcome [1, 0, 0] kim = (False, Fin (21 / 29))
   \<and> outcome [1, 0, 0] old = (True, Fin (20 / 29))
   \<and> best_matched_name [1, 0, 0] [(''kim'', kim), (''old'', old)] = Some ''old''
   \<and> recognize_one [(''kim'', kim), (''old'', old)] [1, 0, 0] [0, 0, 10, 10]
       = Inr \<lparr>res_name = ''Unknown'', res_confidence = Fin (7241 / 100),
              res_coordinates = [0, 0, 10, 10]\<rparr>
   \<and> best_matched_name [1, 0, 0] [([], eve)] = Some []
   \<and> recognize_one [([], eve)] [1, 0, 0] [0, 0, 10, 10]
       = Inr \<lparr>res_name = ''Unknown'', res_confidence = Fin (9231 / 100),
              res_coordinates = [0, 0, 10, 10]\<rparr>"
  by (simp add: outcome_def best_matched_name_def matched_pairs_def recognize_one_def
      match_known_kim match_known_old match_known_eve or_unknown_def rint_def)

end
